theory Spec2Isabelle
  imports Main
begin

section \<open>JavaScript values\<close>

text \<open>
  A JavaScript string is modelled as a \<^typ>\<open>string\<close>, one \<^typ>\<open>char\<close> per code unit (the
  code units 0 to 255), so that \<^verbatim>\<open>.length\<close> is \<^const>\<open>length\<close>. An \<^verbatim>\<open>Error\<close> object is
  its name and its message.
\<close>

record js_error =
  err_name :: string
  err_message :: string

text \<open>
  Reading a property of \<^verbatim>\<open>null\<close> or \<^verbatim>\<open>undefined\<close> raises a TypeError. The text of
  the message is the engine's; nothing below depends on it.
\<close>

definition type_error :: "string \<Rightarrow> js_error" where
  "type_error prop = \<lparr>err_name = ''TypeError'', err_message = ''Cannot read property '' @ prop\<rparr>"

text \<open>
  The numbers the code handles are entry ids and the result of \<^verbatim>\<open>parseInt\<close>: an integer or
  NaN. \<open>Num n\<close> stands for the Number nearest to the integer \<open>n\<close> (the integer itself up to
  \<open>2^53\<close>).
\<close>

datatype js_number = NaN | Num int

definition newline :: string where
  "newline = [CHR 0x0A]"

definition backtick :: string where
  "backtick = [CHR 0x60]"

definition apostrophe :: string where
  "apostrophe = [CHR 0x27]"

definition dquote :: string where
  "dquote = [CHR 0x22]"

text \<open>White space and line terminators of ECMAScript among the code units 0 to 255.\<close>

definition js_whitespace :: "char \<Rightarrow> bool" where
  "js_whitespace c =
     (c \<in> set [CHR 0x09, CHR 0x0A, CHR 0x0B, CHR 0x0C, CHR 0x0D, CHR 0x20, CHR 0xA0])"

text \<open>\<^verbatim>\<open>String.prototype.trim\<close>.\<close>

definition js_trim :: "string \<Rightarrow> string" where
  "js_trim s = rev (dropWhile js_whitespace (rev (dropWhile js_whitespace s)))"

text \<open>
  \<^verbatim>\<open>s.split(' ')\<close>: the pieces between single spaces; two spaces in a row give an empty
  piece, and the empty string gives one empty piece.
\<close>

fun split_space :: "string \<Rightarrow> string list" where
  "split_space [] = [[]]"
| "split_space (c # cs) =
     (if c = CHR '' '' then [] # split_space cs
      else (case split_space cs of
              [] \<Rightarrow> [[c]]
            | piece # pieces \<Rightarrow> (c # piece) # pieces))"

subsection \<open>Number(string) and parseInt(string)\<close>

definition is_digit :: "char \<Rightarrow> bool" where
  "is_digit c = (c \<in> set ''0123456789'')"

definition digit_value :: "char \<Rightarrow> nat option" where
  "digit_value c =
     (if c \<in> set ''0123456789'' then Some (of_char c - 48)
      else if c \<in> set ''abcdef'' then Some (of_char c - 87)
      else if c \<in> set ''ABCDEF'' then Some (of_char c - 55)
      else None)"

definition radix_digit :: "nat \<Rightarrow> char \<Rightarrow> bool" where
  "radix_digit R c = (case digit_value c of None \<Rightarrow> False | Some v \<Rightarrow> v < R)"

definition radix_value :: "nat \<Rightarrow> string \<Rightarrow> nat" where
  "radix_value R Z =
     foldl (\<lambda>acc c. acc * R + (case digit_value c of None \<Rightarrow> 0 | Some v \<Rightarrow> v)) 0 Z"

text \<open>
  The grammar \<open>StringNumericLiteral\<close> of ECMAScript, which \<^verbatim>\<open>Number(s)\<close> applies to a
  string: \<^verbatim>\<open>Number(s)\<close> is NaN exactly when \<open>s\<close>, with the white space at both ends
  removed, is neither empty nor a \<open>StrDecimalLiteral\<close> nor a binary, octal or hexadecimal
  integer literal.
\<close>

definition decimal_digits :: "string \<Rightarrow> bool" where
  "decimal_digits s = (s \<noteq> [] \<and> list_all is_digit s)"

definition signed_integer :: "string \<Rightarrow> bool" where
  "signed_integer s =
     (case s of
        [] \<Rightarrow> False
      | c # r \<Rightarrow> if c = CHR ''+'' \<or> c = CHR ''-'' then decimal_digits r else decimal_digits s)"

definition exponent_part_opt :: "string \<Rightarrow> bool" where
  "exponent_part_opt s =
     (case s of
        [] \<Rightarrow> True
      | c # r \<Rightarrow> (c = CHR ''e'' \<or> c = CHR ''E'') \<and> signed_integer r)"

definition str_unsigned_decimal_literal :: "string \<Rightarrow> bool" where
  "str_unsigned_decimal_literal s =
     (s = ''Infinity'' \<or>
      (let ds = takeWhile is_digit s; r = dropWhile is_digit s
       in case r of
            [] \<Rightarrow> ds \<noteq> []
          | c # r' \<Rightarrow>
              if c = CHR ''.''
              then (let fs = takeWhile is_digit r'; r'' = dropWhile is_digit r'
                    in (ds \<noteq> [] \<or> fs \<noteq> []) \<and> exponent_part_opt r'')
              else ds \<noteq> [] \<and> exponent_part_opt r))"

definition str_decimal_literal :: "string \<Rightarrow> bool" where
  "str_decimal_literal s =
     (case s of
        [] \<Rightarrow> False
      | c # r \<Rightarrow>
          if c = CHR ''+'' \<or> c = CHR ''-'' then str_unsigned_decimal_literal r
          else str_unsigned_decimal_literal s)"

definition non_decimal_integer_literal :: "string \<Rightarrow> bool" where
  "non_decimal_integer_literal s =
     (let prefix = take 2 s; ds = drop 2 s
      in ds \<noteq> [] \<and>
         ((prefix = ''0b'' \<or> prefix = ''0B'') \<and> list_all (radix_digit 2) ds \<or>
          (prefix = ''0o'' \<or> prefix = ''0O'') \<and> list_all (radix_digit 8) ds \<or>
          (prefix = ''0x'' \<or> prefix = ''0X'') \<and> list_all (radix_digit 16) ds))"

text \<open>\<^verbatim>\<open>isNaN(Number(s))\<close> for a string \<open>s\<close>.\<close>

definition isNaN_Number :: "string \<Rightarrow> bool" where
  "isNaN_Number s =
     (let t = js_trim s
      in \<not> (t = [] \<or> str_decimal_literal t \<or> non_decimal_integer_literal t))"

text \<open>
  \<^verbatim>\<open>parseInt(s)\<close> with no radix: leading white space is skipped, a sign is read, a
  prefix \<^verbatim>\<open>0x\<close> selects radix 16, and the longest run of digits is the value; with no
  digit the result is NaN. Whatever follows the digits is ignored.
\<close>

definition parseInt :: "string \<Rightarrow> js_number" where
  "parseInt string =
     (let S = dropWhile js_whitespace string;
          sign = (if S \<noteq> [] \<and> hd S = CHR ''-'' then - 1 else (1::int));
          S1 = (if S \<noteq> [] \<and> (hd S = CHR ''+'' \<or> hd S = CHR ''-'') then tl S else S);
          hex = (2 \<le> length S1 \<and> (take 2 S1 = ''0x'' \<or> take 2 S1 = ''0X''));
          R = (if hex then 16 else 10);
          S2 = (if hex then drop 2 S1 else S1);
          Z = takeWhile (radix_digit R) S2
      in if Z = [] then NaN else Num (sign * int (radix_value R Z)))"

text \<open>
  Number to string, as a template literal does it: \<^verbatim>\<open>NaN\<close>, or the decimal digits of
  the integer. This is what JavaScript prints for an integer up to \<open>2^53\<close>; above it
  JavaScript prints the digits of the nearest double, in exponent form from \<open>10^21\<close>, which
  this definition does not follow. The ids of stored entries are far below that bound.
\<close>

fun nat_digits :: "nat \<Rightarrow> string" where
  "nat_digits n =
     (if n < 10 then [''0123456789'' ! n]
      else nat_digits (n div 10) @ [''0123456789'' ! (n mod 10)])"

declare nat_digits.simps [simp del]

definition number_to_string :: "js_number \<Rightarrow> string" where
  "number_to_string x =
     (case x of
        NaN \<Rightarrow> ''NaN''
      | Num n \<Rightarrow> if n < 0 then ''-'' @ nat_digits (nat (- n)) else nat_digits (nat n))"

section \<open>The world the handlers act on\<close>

text \<open>
  The effects of the two source files are messages sent to the channel, lines handed to
  the logger, statements handed to the storage, timers armed with \<^verbatim>\<open>setTimeout\<close> and
  calls of \<^verbatim>\<open>login\<close>. They are recorded, in order, in one record.
\<close>

datatype log_entry = LogText string | LogError js_error

type_synonym date = int

record embed =
  emb_color :: "nat option"
  emb_title :: "string option"
  emb_description :: "string list option"
  emb_author :: "(string \<times> string) option"
  emb_fields :: "(string \<times> string) list"
  emb_timestamp :: "date option"

definition new_MessageEmbed :: embed where
  "new_MessageEmbed =
     \<lparr>emb_color = None, emb_title = None, emb_description = None, emb_author = None,
      emb_fields = [], emb_timestamp = None\<rparr>"

datatype outgoing = Text string | Embed embed

text \<open>
  The statements of \<^verbatim>\<open>auditlog.ts\<close> with their parameters: the insert of line 29, the
  select by guild of line 53 (it has no ORDER BY clause) and the select by guild and id
  of line 111.
\<close>

datatype query =
    InsertAuditLog string string string string
  | SelectByGuild string
  | SelectByGuildAndId string js_number

text \<open>The type \<^verbatim>\<open>DatabaseAuditLog\<close> of line 10; its field \<^verbatim>\<open>id\<close> is \<open>row_id\<close> here.\<close>

record audit_row =
  row_id :: int
  guild_id :: string
  user_id :: string
  command_id :: "string option"
  message :: "string option"
  timestamp :: date

record query_result =
  rowCount :: nat
  rows :: "audit_row list"

record world =
  sent :: "outgoing list"
  logged :: "log_entry list"
  queries :: "query list"
  timers :: "nat list"
  logins :: nat

text \<open>
  A computation acts on the world and returns a value or raises: every \<^verbatim>\<open>throw\<close> and
  every rejected promise of the source is an \<open>Inl\<close>.
\<close>

type_synonym 'a io = "world \<Rightarrow> (js_error + 'a) \<times> world"

definition io_return :: "'a \<Rightarrow> 'a io" where
  "io_return v w = (Inr v, w)"

definition io_throw :: "js_error \<Rightarrow> 'a io" where
  "io_throw err w = (Inl err, w)"

definition io_bind :: "'a io \<Rightarrow> ('a \<Rightarrow> 'b io) \<Rightarrow> 'b io" where
  "io_bind m f w = (case m w of (Inl err, w') \<Rightarrow> (Inl err, w') | (Inr v, w') \<Rightarrow> f v w')"

definition try_catch :: "'a io \<Rightarrow> (js_error \<Rightarrow> 'a io) \<Rightarrow> 'a io" where
  "try_catch body handler w =
     (case body w of (Inl err, w') \<Rightarrow> handler err w' | (Inr v, w') \<Rightarrow> (Inr v, w'))"

definition io_of :: "js_error + 'a \<Rightarrow> 'a io" where
  "io_of r w = (r, w)"

text \<open>\<^verbatim>\<open>logger.error(x)\<close>, with a string or an error, and \<^verbatim>\<open>message.channel.send(x)\<close>.\<close>

definition logger_error :: "log_entry \<Rightarrow> unit io" where
  "logger_error e w = (Inr (), w\<lparr>logged := logged w @ [e]\<rparr>)"

definition channel_send :: "outgoing \<Rightarrow> unit io" where
  "channel_send out w = (Inr (), w\<lparr>sent := sent w @ [out]\<rparr>)"

subsection \<open>The collaborators\<close>

text \<open>
  The storage engine is outside the repository: a connection answers a statement with a
  result or a fault. \<^verbatim>\<open>connection.query\<close> records the statement and returns the answer.
\<close>

type_synonym connection = "query \<Rightarrow> js_error + query_result"

definition connection_query :: "connection \<Rightarrow> query \<Rightarrow> query_result io" where
  "connection_query connection q w = (connection q, w\<lparr>queries := queries w @ [q]\<rparr>)"

text \<open>
  Modelled from the spec: \<^verbatim>\<open>database.withConnection\<close> (the module \<^verbatim>\<open>database\<close> is
  not among the sources). The spec says that each invocation's query is scoped to a
  single pooled connection, acquired and released for the duration of the invocation.
\<close>

definition withConnection :: "connection \<Rightarrow> (connection \<Rightarrow> 'a io) \<Rightarrow> 'a io" where
  "withConnection pool callback = callback pool"

text \<open>The rows a statement inserts into the table \<^verbatim>\<open>auditlog\<close>, as (guild, user, command, message).\<close>

fun rows_inserted :: "query \<Rightarrow> (string \<times> string \<times> string \<times> string) list" where
  "rows_inserted (InsertAuditLog g u c m) = [(g, u, c, m)]"
| "rows_inserted (SelectByGuild g) = []"
| "rows_inserted (SelectByGuildAndId g i) = []"

text \<open>
  The rows written by a sequence of statements handed to a connection: those of the
  statements the connection did not answer with a fault.
\<close>

definition rows_written ::
  "connection \<Rightarrow> query list \<Rightarrow> (string \<times> string \<times> string \<times> string) list" where
  "rows_written connection qs =
     concat (map (\<lambda>q. case connection q of Inl _ \<Rightarrow> [] | Inr _ \<Rightarrow> rows_inserted q) qs)"

text \<open>
  A \<^verbatim>\<open>Discord.Message\<close>: its text, its guild (\<^verbatim>\<open>null\<close> outside a server, otherwise
  the guild's id) and its author's id. A \<^verbatim>\<open>Discord.User\<close>: id, tag and avatar URL.
\<close>

record discord_message =
  content :: string
  guild :: "string option"
  author :: string

record user =
  uid :: string
  tag :: string
  displayAvatarURL :: string

record command =
  cmd_id :: string
  cmd_name :: string

record client =
  commands :: "command list"
  users_fetch :: "string \<Rightarrow> js_error + user"

text \<open>
  What \<^verbatim>\<open>auditlog.ts\<close> imports from modules that are not among the sources is taken as
  a parameter: the pool of \<^verbatim>\<open>database\<close>, \<^verbatim>\<open>logger.getDateTime\<close>, and \<^verbatim>\<open>truncate\<close> and
  the colour \<^verbatim>\<open>Color.rainbow.skyblue\<close> of \<^verbatim>\<open>utils\<close>.
\<close>

record env =
  pool :: connection
  getDateTime :: "date \<Rightarrow> bool \<Rightarrow> string"
  utils_truncate :: "string \<Rightarrow> nat \<Rightarrow> string \<Rightarrow> bool \<Rightarrow> string"
  skyblue :: nat

text \<open>\<^verbatim>\<open>message.guild.id\<close>: a TypeError when the message has no guild.\<close>

definition message_guild_id :: "discord_message \<Rightarrow> string io" where
  "message_guild_id msg =
     (case guild msg of None \<Rightarrow> io_throw (type_error ''id'') | Some g \<Rightarrow> io_return g)"

section \<open>insertAuditLog\<close>

text \<open>
  Source: \<^verbatim>\<open>src/extensions/auditlog.ts\<close>, lines 27 to 45. The parameters of the statement
  are evaluated inside the \<^verbatim>\<open>try\<close> block, before the statement is handed over.
\<close>

definition insert_failed :: log_entry where
  "insert_failed =
     LogText (''Could not insert into '' @ dquote @ ''auditlog'' @ dquote @ '' table.'')"

definition insertAuditLog :: "connection \<Rightarrow> discord_message \<Rightarrow> string \<Rightarrow> unit io" where
  "insertAuditLog connection msg commandID =
     try_catch
       (io_bind (message_guild_id msg) (\<lambda>g.
        io_bind (connection_query connection
                   (InsertAuditLog g (author msg) commandID (content msg))) (\<lambda>_.
        io_return ())))
       (\<lambda>err.
        io_bind (logger_error (LogError err)) (\<lambda>_.
        logger_error insert_failed))"

section \<open>The pagination loop of the audit-log list mode\<close>

text \<open>
  Source: \<^verbatim>\<open>src/extensions/auditlog.ts\<close>, lines 83 to 93.
  \<^verbatim>\<open>
      const messageBuffer: [string[]] = [[]];
      let buffer = 0;
      for (let i = 0; i < formattedArr.length; i++) {
        const formattedStr = formattedArr[i];
        if (buffer + formattedStr.length > 2048) {
          messageBuffer.push([]);
          buffer = 0;
        }
        messageBuffer[messageBuffer.length - 1].push(formattedStr + '\n');
        buffer += formattedStr.length;
      }
  \<close>
  A page is the array of strings pushed on it; the state of the loop is the pair of
  \<^verbatim>\<open>messageBuffer\<close> and \<^verbatim>\<open>buffer\<close>.
\<close>

definition capacity :: nat where
  "capacity = 2048"

text \<open>
  \<^verbatim>\<open>messageBuffer[messageBuffer.length - 1].push(s)\<close>: the last page is extended in
  place. The array is never empty when the loop runs (it starts as \<^verbatim>\<open>[[]]\<close> and only
  grows), see \<open>paginate_loop_nonempty\<close> below.
\<close>

definition push_last :: "string list list \<Rightarrow> string \<Rightarrow> string list list" where
  "push_last messageBuffer s =
     messageBuffer[length messageBuffer - 1 := (messageBuffer ! (length messageBuffer - 1)) @ [s]]"

fun paginate_loop :: "string list \<Rightarrow> string list list \<times> nat \<Rightarrow> string list list \<times> nat" where
  "paginate_loop [] st = st"
| "paginate_loop (formattedStr # rest) (messageBuffer, buffer) =
     (if buffer + length formattedStr > capacity
      then paginate_loop rest
             (push_last (messageBuffer @ [[]]) (formattedStr @ newline), 0 + length formattedStr)
      else paginate_loop rest
             (push_last messageBuffer (formattedStr @ newline), buffer + length formattedStr))"

definition paginate :: "string list \<Rightarrow> string list list" where
  "paginate formattedArr = fst (paginate_loop formattedArr ([[]], 0))"

text \<open>The blocks of a page with the appended separator removed again.\<close>

definition page_blocks :: "string list \<Rightarrow> string list" where
  "page_blocks page = map butlast page"

text \<open>The rendered content of a page: its entries, each ending in the separator.\<close>

definition rendered :: "string list \<Rightarrow> string" where
  "rendered page = concat page"

text \<open>
  The length the loop counts in \<^verbatim>\<open>buffer\<close>: that of the blocks of a page without their
  separators. A page fits when this length is within the capacity or the page holds one
  block only.
\<close>

definition blocks_length :: "string list \<Rightarrow> nat" where
  "blocks_length page = length (concat (page_blocks page))"

definition fits :: "string list \<Rightarrow> bool" where
  "fits page = (blocks_length page \<le> capacity \<or> length page = 1)"

section \<open>The audit-log command\<close>

text \<open>
  Source: \<^verbatim>\<open>src/extensions/auditlog.ts\<close>, function \<^verbatim>\<open>execute\<close>, lines 47 to 142.
\<close>

subsection \<open>The command label and the text block of a row\<close>

text \<open>
  Lines 72 and 73 (and 129, 130): \<^verbatim>\<open>client.commands.find(cmd => cmd.id === auditLog.command_id)\<close>
  gives \<^verbatim>\<open>undefined\<close> when no command matches; a stored \<^verbatim>\<open>null\<close> matches none.
\<close>

definition find_command :: "command list \<Rightarrow> string option \<Rightarrow> command option" where
  "find_command cmds stored = find (\<lambda>cmd. Some (cmd_id cmd) = stored) cmds"

text \<open>
  \<^verbatim>\<open>const commandID = command.id ?? auditLog.command_id\<close>: reading \<^verbatim>\<open>.id\<close> of
  \<^verbatim>\<open>undefined\<close> raises before \<^verbatim>\<open>??\<close> is reached; the id of a command that was found is
  a string, so the right operand is never taken.
\<close>

definition command_label :: "command option \<Rightarrow> string option \<Rightarrow> js_error + string" where
  "command_label cmd stored =
     (case cmd of None \<Rightarrow> Inl (type_error ''id'') | Some c \<Rightarrow> Inr (cmd_id c))"

text \<open>
  The template literal of lines 75 to 80, with the indentation of the source lines, and
  \<^verbatim>\<open>.trim()\<close> applied to it.
\<close>

definition format_block :: "env \<Rightarrow> audit_row \<Rightarrow> user \<Rightarrow> string \<Rightarrow> string" where
  "format_block e auditLog usr commandID =
     js_trim
       (newline @ replicate 10 (CHR '' '') @
          ''__**Audit Log #'' @ number_to_string (Num (row_id auditLog)) @ '':**__ '' @
          backtick @ commandID @ backtick @
        newline @ replicate 10 (CHR '' '') @
          ''**Time:** '' @ getDateTime e (timestamp auditLog) True @
        newline @ replicate 10 (CHR '' '') @
          ''**User:** '' @ tag usr @
        newline @ replicate 10 (CHR '' '') @
          ''('' @ user_id auditLog @ '')'' @
        newline @ replicate 8 (CHR '' ''))"

text \<open>The body of the loop over the rows (lines 71 to 80), and the loop (lines 69 to 81).\<close>

definition format_row :: "env \<Rightarrow> client \<Rightarrow> audit_row \<Rightarrow> string io" where
  "format_row e cl auditLog =
     io_bind (io_of (users_fetch cl (user_id auditLog))) (\<lambda>usr.
     io_bind (io_of (command_label (find_command (commands cl) (command_id auditLog))
                       (command_id auditLog))) (\<lambda>commandID.
     io_return (format_block e auditLog usr commandID)))"

fun format_rows :: "env \<Rightarrow> client \<Rightarrow> audit_row list \<Rightarrow> string list \<Rightarrow> string list io" where
  "format_rows e cl [] formattedArr = io_return formattedArr"
| "format_rows e cl (auditLog # rest) formattedArr =
     io_bind (format_row e cl auditLog) (\<lambda>formattedStr.
     format_rows e cl rest (formattedArr @ [formattedStr]))"

text \<open>
  Lines 94 to 97: one message per page. The one embed object is updated and sent again.
\<close>

fun send_pages :: "embed \<Rightarrow> string list list \<Rightarrow> unit io" where
  "send_pages emb [] = io_return ()"
| "send_pages emb (page # rest) =
     io_bind (channel_send (Embed (emb\<lparr>emb_description := Some page\<rparr>))) (\<lambda>_.
     send_pages (emb\<lparr>emb_description := Some page\<rparr>) rest)"

subsection \<open>List mode and detail mode\<close>

text \<open>Lines 52 to 97, the body of the first \<^verbatim>\<open>try\<close> block.\<close>

definition list_mode :: "env \<Rightarrow> client \<Rightarrow> discord_message \<Rightarrow> embed \<Rightarrow> unit io" where
  "list_mode e cl msg emb =
     io_bind (withConnection (pool e) (\<lambda>connection.
                io_bind (message_guild_id msg) (\<lambda>g.
                connection_query connection (SelectByGuild g)))) (\<lambda>dbResult.
     if rowCount dbResult < 1
     then channel_send (Text ''This server has no audit log entries.'')
     else io_bind (format_rows e cl (rows dbResult) []) (\<lambda>formattedArr.
          send_pages emb (paginate formattedArr)))"

text \<open>
  \<^verbatim>\<open>dbResult.rows[0]\<close> is \<^verbatim>\<open>undefined\<close> when there is no row, and reading its
  \<^verbatim>\<open>user_id\<close> raises.
\<close>

definition first_row :: "query_result \<Rightarrow> audit_row io" where
  "first_row dbResult =
     (case rows dbResult of
        [] \<Rightarrow> io_throw (type_error ''user_id'')
      | auditLog # _ \<Rightarrow> io_return auditLog)"

text \<open>
  Line 134: the stored message between two fences of three backticks, the first followed
  by a newline; a stored \<^verbatim>\<open>null\<close> is printed as \<^verbatim>\<open>null\<close>.
\<close>

definition message_text :: "audit_row \<Rightarrow> string" where
  "message_text auditLog =
     backtick @ backtick @ backtick @ newline @
     (case message auditLog of None \<Rightarrow> ''null'' | Some m \<Rightarrow> m) @
     backtick @ backtick @ backtick"

text \<open>Lines 111 to 136, the body of the second \<^verbatim>\<open>try\<close> block.\<close>

definition detail_mode ::
  "env \<Rightarrow> client \<Rightarrow> discord_message \<Rightarrow> embed \<Rightarrow> js_number \<Rightarrow> unit io" where
  "detail_mode e cl msg emb ident =
     io_bind (withConnection (pool e) (\<lambda>connection.
                io_bind (message_guild_id msg) (\<lambda>g.
                connection_query connection (SelectByGuildAndId g ident)))) (\<lambda>dbResult.
     if rowCount dbResult < 1
     then channel_send
            (Text (''Could not find audit log by ID '' @ backtick @ number_to_string ident @
                   backtick @ ''.''))
     else io_bind (first_row dbResult) (\<lambda>auditLog.
          io_bind (io_of (users_fetch cl (user_id auditLog))) (\<lambda>usr.
          io_bind (io_of (command_label (find_command (commands cl) (command_id auditLog))
                            (command_id auditLog))) (\<lambda>commandID.
          channel_send
            (Embed (emb\<lparr>
               emb_title := Some (''Audit Log #'' @ number_to_string ident),
               emb_author := Some (tag usr @ '' ('' @ uid usr @ '')'', displayAvatarURL usr),
               emb_fields := emb_fields emb @
                 [(''Command'', backtick @ commandID @ backtick),
                  (''Message Text'', utils_truncate e (message_text auditLog) 1024 '' ...'' True)],
               emb_timestamp := Some (timestamp auditLog)\<rparr>))))))"

subsection \<open>execute\<close>

definition usage_error :: string where
  "usage_error = ''You must specify a valid audit log ID - not a number.''"

definition search_failed :: "js_number \<Rightarrow> string \<Rightarrow> string" where
  "search_failed ident q =
     ''Could not search for audit log by ID '' @ q @ number_to_string ident @ q @ ''.''"

definition auditlog_execute :: "env \<Rightarrow> client \<Rightarrow> discord_message \<Rightarrow> unit io" where
  "auditlog_execute e cl msg =
     (let args = split_space (content msg);
          emb = new_MessageEmbed\<lparr>emb_color := Some (skyblue e)\<rparr>
      in if length args < 2
         then try_catch (list_mode e cl msg emb)
                (\<lambda>err.
                 io_bind (logger_error (LogError err)) (\<lambda>_.
                 channel_send
                   (Text ''Could not display audit log. Details have been logged.'')))
         else if isNaN_Number (args ! 1)
         then channel_send (Text usage_error)
         else (let ident = parseInt (args ! 1)
               in try_catch (detail_mode e cl msg emb ident)
                    (\<lambda>err.
                     io_bind (logger_error (LogText (search_failed ident apostrophe))) (\<lambda>_.
                     io_bind (logger_error (LogError err)) (\<lambda>_.
                     channel_send (Text (search_failed ident backtick)))))))"

section \<open>The handler of connection errors\<close>

text \<open>
  Source: \<^verbatim>\<open>src/events/error.ts\<close>, function \<^verbatim>\<open>execute\<close>, lines 13 to 22.
  \<^verbatim>\<open>
  export async function execute(err: Error): Promise<void> {
    if (err.name === 'ENOTFOUND') {
      logger.error('Lost connection to Discord, will attempt reconnect in 30 seconds...');
      setTimeout(async () => {
        await login();
      }, config.reconnectTimeout);
      return;
    }
    logger.error(err);
  }
  \<close>
  \<^verbatim>\<open>config.reconnectTimeout\<close> is a parameter. A pending timer is recorded by its delay
  in \<open>timers\<close>; the callback of every timer is the call of \<^verbatim>\<open>login\<close>.
\<close>

definition setTimeout_login :: "nat \<Rightarrow> unit io" where
  "setTimeout_login delay w = (Inr (), w\<lparr>timers := timers w @ [delay]\<rparr>)"

definition error_execute :: "nat \<Rightarrow> js_error \<Rightarrow> unit io" where
  "error_execute reconnectTimeout err =
     (if err_name err = ''ENOTFOUND''
      then io_bind
             (logger_error
                (LogText ''Lost connection to Discord, will attempt reconnect in 30 seconds...''))
             (\<lambda>_. setTimeout_login reconnectTimeout)
      else logger_error (LogError err))"

text \<open>The oldest pending timer fires: it leaves \<open>timers\<close> and its callback calls \<^verbatim>\<open>login\<close>.\<close>

definition timer_fires :: "world \<Rightarrow> world" where
  "timer_fires w =
     (case timers w of
        [] \<Rightarrow> w
      | _ # pending \<Rightarrow> w\<lparr>timers := pending, logins := logins w + 1\<rparr>)"

text \<open>Faults delivered to the handler one after the other, with no timer firing in between.\<close>

fun deliver :: "nat \<Rightarrow> js_error list \<Rightarrow> world \<Rightarrow> world" where
  "deliver reconnectTimeout [] w = w"
| "deliver reconnectTimeout (err # errs) w =
     deliver reconnectTimeout errs (snd (error_execute reconnectTimeout err w))"

section \<open>Concrete inputs\<close>

text \<open>The inputs at which the theorems below are evaluated.\<close>

definition world0 :: world where
  "world0 = \<lparr>sent = [], logged = [], queries = [], timers = [], logins = 0\<rparr>"

definition enotfound :: js_error where
  "enotfound =
     \<lparr>err_name = ''ENOTFOUND'', err_message = ''getaddrinfo ENOTFOUND gateway.discord.gg''\<rparr>"

definition econnreset :: js_error where
  "econnreset = \<lparr>err_name = ''ECONNRESET'', err_message = ''read ECONNRESET''\<rparr>"

definition message0 :: discord_message where
  "message0 = \<lparr>content = ''ping'', guild = Some ''81384788765712384'', author = ''80351110224678912''\<rparr>"

definition storage_ok :: connection where
  "storage_ok q = Inr \<lparr>rowCount = 1, rows = []\<rparr>"

definition storage_down :: connection where
  "storage_down q = Inl \<lparr>err_name = ''Error'', err_message = ''Connection terminated unexpectedly''\<rparr>"

definition block128 :: string where
  "block128 = replicate 128 (CHR ''a'')"

text \<open>
  Modelled from the spec: \<^verbatim>\<open>truncate\<close> of the module \<^verbatim>\<open>utils\<close>, which is not among the
  sources. The spec says: if the text fits, return it unchanged; otherwise remove
  characters from the opposite end of the requested direction and splice in the
  placeholder so that the final length equals the maximum. It only serves as the
  \<open>utils_truncate\<close> of the concrete environment.
\<close>

definition truncate_spec :: "string \<Rightarrow> nat \<Rightarrow> string \<Rightarrow> bool \<Rightarrow> string" where
  "truncate_spec text n placeholder fromStart =
     (if length text \<le> n then text
      else if fromStart then placeholder @ drop (length text - (n - length placeholder)) text
      else take (n - length placeholder) text @ placeholder)"

definition env_with :: "connection \<Rightarrow> env" where
  "env_with connection =
     \<lparr>pool = connection,
      getDateTime = (\<lambda>d withTime. ''2020-06-01 12:00:00''),
      utils_truncate = truncate_spec,
      skyblue = 0x87CEEB\<rparr>"

definition client0 :: client where
  "client0 =
     \<lparr>commands = [\<lparr>cmd_id = ''auditlog'', cmd_name = ''Audit Log''\<rparr>],
      users_fetch = (\<lambda>i. Inr \<lparr>uid = i, tag = ''user#0001'', displayAvatarURL = ''avatar.png''\<rparr>)\<rparr>"

definition message_of :: "string \<Rightarrow> discord_message" where
  "message_of text =
     \<lparr>content = text, guild = Some ''81384788765712384'', author = ''80351110224678912''\<rparr>"

definition row_of :: "int \<Rightarrow> string \<Rightarrow> audit_row" where
  "row_of i cmd =
     \<lparr>row_id = i, guild_id = ''81384788765712384'', user_id = ''80351110224678912'',
      command_id = Some cmd, message = Some cmd, timestamp = 1591012800000\<rparr>"

definition storage_ping :: connection where
  "storage_ping q = Inr \<lparr>rowCount = 1, rows = [row_of 7 ''ping'']\<rparr>"

definition storage_unordered :: connection where
  "storage_unordered q =
     Inr \<lparr>rowCount = 2, rows = [row_of 2 ''auditlog'', row_of 1 ''auditlog'']\<rparr>"

definition user0 :: user where
  "user0 = \<lparr>uid = ''80351110224678912'', tag = ''user#0001'', displayAvatarURL = ''avatar.png''\<rparr>"

text \<open>The pages carried by the embeds among the messages sent.\<close>

fun sent_pages :: "outgoing list \<Rightarrow> string list list" where
  "sent_pages [] = []"
| "sent_pages (Text _ # outs) = sent_pages outs"
| "sent_pages (Embed emb # outs) =
     (case emb_description emb of
        None \<Rightarrow> sent_pages outs
      | Some page \<Rightarrow> page # sent_pages outs)"



section \<open>Facts about the model\<close>

subsection \<open>Basic facts about the loop\<close>

lemma push_last_snoc: "push_last (pages @ [p]) s = pages @ [p @ [s]]"
  by (simp add: push_last_def nth_append)

lemma push_last_conv:
  "messageBuffer \<noteq> [] \<Longrightarrow>
   push_last messageBuffer s = butlast messageBuffer @ [last messageBuffer @ [s]]"
  using push_last_snoc [of "butlast messageBuffer" "last messageBuffer" s] by simp

lemma butlast_newline: "butlast (s @ newline) = s"
  by (simp add: newline_def)

lemma paginate_loop_nonempty:
  "messageBuffer \<noteq> [] \<Longrightarrow> fst (paginate_loop xs (messageBuffer, buffer)) \<noteq> []"
proof (induction xs arbitrary: messageBuffer buffer)
  case Nil
  then show ?case by simp
next
  case (Cons x xs)
  have a: "push_last (messageBuffer @ [[]]) (x @ newline) \<noteq> []"
    by (simp add: push_last_snoc)
  have b: "push_last messageBuffer (x @ newline) \<noteq> []"
    using Cons.prems by (simp add: push_last_conv)
  show ?case using Cons.IH [OF a] Cons.IH [OF b] by simp
qed

lemma paginate_loop_blocks:
  "messageBuffer \<noteq> [] \<Longrightarrow>
   concat (map page_blocks (fst (paginate_loop xs (messageBuffer, buffer))))
     = concat (map page_blocks messageBuffer) @ xs"
proof (induction xs arbitrary: messageBuffer buffer)
  case Nil
  then show ?case by simp
next
  case (Cons x xs)
  obtain pages p where mb: "messageBuffer = pages @ [p]"
    using Cons.prems by (metis append_butlast_last_id)
  have a: "pages @ [p, [x @ newline]] \<noteq> []" by simp
  have b: "pages @ [p @ [x @ newline]] \<noteq> []" by simp
  have pa: "push_last (pages @ [p, []]) (x @ newline) = pages @ [p, [x @ newline]]"
    using push_last_snoc [of "pages @ [p]" "[]" "x @ newline"] by simp
  show ?case
    using Cons.IH [OF a, of "length x"] Cons.IH [OF b, of "buffer + length x"]
    by (simp add: mb pa push_last_snoc page_blocks_def butlast_newline)
qed

lemma paginate_loop_step:
  "paginate_loop (x # xs) (pages @ [p], b) =
     (if capacity < b + length x
      then paginate_loop xs (pages @ [p, [x @ newline]], length x)
      else paginate_loop xs (pages @ [p @ [x @ newline]], b + length x))"
  using push_last_snoc [of "pages @ [p]" "[]" "x @ newline"]
  by (simp add: push_last_snoc)

lemma paginate_loop_prefix:
  "fst (paginate_loop xs (pre @ [p], b)) = pre @ fst (paginate_loop xs ([p], b))"
proof (induction xs arbitrary: pre p b)
  case Nil
  show ?case by simp
next
  case (Cons x xs)
  have new: "fst (paginate_loop xs (pre @ [p, [x @ newline]], length x))
             = pre @ p # fst (paginate_loop xs ([[x @ newline]], length x))"
    using Cons.IH [of "pre @ [p]" "[x @ newline]" "length x"]
          Cons.IH [of "[p]" "[x @ newline]" "length x"] by simp
  show ?case
    using paginate_loop_step [of x xs pre p b] paginate_loop_step [of x xs "[]" p b]
          Cons.IH [of pre "p @ [x @ newline]" "b + length x"]
          Cons.IH [of "[p]" "[x @ newline]" "length x"] new
    by simp
qed

lemma paginate_loop_new_page:
  "fst (paginate_loop xs ([p, q], b)) = p # fst (paginate_loop xs ([q], b))"
  using paginate_loop_prefix [of xs "[p]" q b] by simp

lemma paginate_loop_single:
  "paginate_loop (x # xs) ([p], b) =
     (if capacity < b + length x
      then paginate_loop xs ([p, [x @ newline]], length x)
      else paginate_loop xs ([p @ [x @ newline]], b + length x))"
  using paginate_loop_step [of x xs "[]" p b] by simp

lemma paginate_loop_no_empty_page:
  "p \<noteq> [] \<Longrightarrow> [] \<notin> set (fst (paginate_loop xs ([p], b)))"
proof (induction xs arbitrary: p b)
  case Nil
  then show ?case by simp
next
  case (Cons x xs)
  show ?case
    using Cons.prems Cons.IH [of "[x @ newline]" "length x"]
          Cons.IH [of "p @ [x @ newline]" "b + length x"]
    by (simp add: paginate_loop_single paginate_loop_new_page del: paginate_loop.simps)
qed

lemma paginate_loop_first_page:
  "\<exists>blocks pages. fst (paginate_loop xs ([p], b)) = (p @ blocks) # pages"
proof (induction xs arbitrary: p b)
  case Nil
  show ?case by simp
next
  case (Cons x xs)
  show ?case
  proof (cases "capacity < b + length x")
    case True
    then show ?thesis
      by (simp add: paginate_loop_single paginate_loop_new_page del: paginate_loop.simps)
  next
    case False
    obtain blocks pages where
      "fst (paginate_loop xs ([p @ [x @ newline]], b + length x)) = ((p @ [x @ newline]) @ blocks) # pages"
      using Cons.IH [of "p @ [x @ newline]" "b + length x"] by blast
    with False show ?thesis
      by (simp add: paginate_loop_single del: paginate_loop.simps)
  qed
qed

lemma paginate_Cons:
  "paginate (x # xs) =
     (if capacity < length x
      then [] # fst (paginate_loop xs ([[x @ newline]], length x))
      else fst (paginate_loop xs ([[x @ newline]], length x)))"
  by (simp add: paginate_def paginate_loop_single paginate_loop_new_page del: paginate_loop.simps)

lemma paginate_loop_fits:
  "blocks_length p = b \<Longrightarrow> fits p \<Longrightarrow> \<forall>q \<in> set (fst (paginate_loop xs ([p], b))). fits q"
proof (induction xs arbitrary: p b)
  case Nil
  then show ?case by simp
next
  case (Cons x xs)
  have one: "blocks_length [x @ newline] = length x" "fits [x @ newline]"
    by (simp_all add: blocks_length_def page_blocks_def butlast_newline fits_def)
  have ext: "blocks_length (p @ [x @ newline]) = b + length x"
    using Cons.prems(1) by (simp add: blocks_length_def page_blocks_def butlast_newline)
  show ?case
  proof (cases "capacity < b + length x")
    case True
    then show ?thesis
      using Cons.prems(2) Cons.IH [OF one]
      by (simp add: paginate_loop_single paginate_loop_new_page del: paginate_loop.simps)
  next
    case False
    then have "fits (p @ [x @ newline])" using ext by (simp add: fits_def)
    with False show ?thesis
      using Cons.IH [OF ext] by (simp add: paginate_loop_single del: paginate_loop.simps)
  qed
qed

lemma paginate_fits: "\<forall>page \<in> set (paginate formattedArr). fits page"
  using paginate_loop_fits [of "[]" 0 formattedArr]
  by (simp add: paginate_def blocks_length_def page_blocks_def fits_def)

lemma send_pages_sent:
  "send_pages emb pages w =
     (Inr (), w\<lparr>sent := sent w @ map (\<lambda>page. Embed (emb\<lparr>emb_description := Some page\<rparr>)) pages\<rparr>)"
proof (induction pages arbitrary: emb w)
  case Nil
  show ?case by (simp add: io_return_def)
next
  case (Cons page pages)
  show ?case
    by (simp add: io_bind_def channel_send_def Cons.IH)
qed

subsection \<open>The handler of connection errors\<close>

lemma error_execute_ENOTFOUND:
  "err_name err = ''ENOTFOUND'' \<Longrightarrow>
   error_execute T err w =
     (Inr (), w\<lparr>logged := logged w @
                 [LogText ''Lost connection to Discord, will attempt reconnect in 30 seconds...''],
               timers := timers w @ [T]\<rparr>)"
  by (simp add: error_execute_def io_bind_def logger_error_def setTimeout_login_def)

lemma error_execute_other:
  "err_name err \<noteq> ''ENOTFOUND'' \<Longrightarrow>
   error_execute T err w = (Inr (), w\<lparr>logged := logged w @ [LogError err]\<rparr>)"
  by (simp add: error_execute_def logger_error_def)

subsection \<open>insertAuditLog\<close>

lemma insertAuditLog_no_guild:
  "guild msg = None \<Longrightarrow>
   insertAuditLog connection msg commandID w =
     (Inr (), w\<lparr>logged := logged w @ [LogError (type_error ''id''), insert_failed]\<rparr>)"
  by (simp add: insertAuditLog_def try_catch_def io_bind_def message_guild_id_def io_throw_def
      logger_error_def insert_failed_def)

lemma insertAuditLog_fault:
  "guild msg = Some g \<Longrightarrow>
   connection (InsertAuditLog g (author msg) commandID (content msg)) = Inl err \<Longrightarrow>
   insertAuditLog connection msg commandID w =
     (Inr (), w\<lparr>queries := queries w @ [InsertAuditLog g (author msg) commandID (content msg)],
               logged := logged w @ [LogError err, insert_failed]\<rparr>)"
  by (simp add: insertAuditLog_def try_catch_def io_bind_def message_guild_id_def io_return_def
      connection_query_def logger_error_def insert_failed_def)

lemma insertAuditLog_success:
  "guild msg = Some g \<Longrightarrow>
   connection (InsertAuditLog g (author msg) commandID (content msg)) = Inr r \<Longrightarrow>
   insertAuditLog connection msg commandID w =
     (Inr (), w\<lparr>queries := queries w @ [InsertAuditLog g (author msg) commandID (content msg)]\<rparr>)"
  by (simp add: insertAuditLog_def try_catch_def io_bind_def message_guild_id_def io_return_def
      connection_query_def)

lemma rows_written_append:
  "rows_written connection (qs @ [q]) =
     rows_written connection qs @ (case connection q of Inl _ \<Rightarrow> [] | Inr _ \<Rightarrow> rows_inserted q)"
  by (simp add: rows_written_def)

subsection \<open>The audit-log command\<close>

lemmas io_defs =
  io_return_def io_throw_def io_bind_def try_catch_def io_of_def logger_error_def
  channel_send_def connection_query_def withConnection_def message_guild_id_def first_row_def

lemmas number_defs =
  isNaN_Number_def js_trim_def js_whitespace_def str_decimal_literal_def
  str_unsigned_decimal_literal_def is_digit_def exponent_part_opt_def signed_integer_def
  decimal_digits_def non_decimal_integer_literal_def parseInt_def radix_digit_def
  digit_value_def radix_value_def

lemma search_failed_not_usage: "search_failed ident q \<noteq> usage_error"
  by (simp add: search_failed_def usage_error_def)

lemma detail_mode_caught:
  assumes g: "guild msg = Some g"
  shows "\<exists>out. out \<noteq> Text usage_error \<and>
     try_catch (detail_mode e cl msg emb ident)
       (\<lambda>err.
          io_bind (logger_error (LogText (search_failed ident apostrophe))) (\<lambda>_.
          io_bind (logger_error (LogError err)) (\<lambda>_.
          channel_send (Text (search_failed ident backtick))))) w
     = (Inr (), snd (try_catch (detail_mode e cl msg emb ident)
       (\<lambda>err.
          io_bind (logger_error (LogText (search_failed ident apostrophe))) (\<lambda>_.
          io_bind (logger_error (LogError err)) (\<lambda>_.
          channel_send (Text (search_failed ident backtick))))) w)) \<and>
     sent (snd (try_catch (detail_mode e cl msg emb ident)
       (\<lambda>err.
          io_bind (logger_error (LogText (search_failed ident apostrophe))) (\<lambda>_.
          io_bind (logger_error (LogError err)) (\<lambda>_.
          channel_send (Text (search_failed ident backtick))))) w)) = sent w @ [out] \<and>
     queries (snd (try_catch (detail_mode e cl msg emb ident)
       (\<lambda>err.
          io_bind (logger_error (LogText (search_failed ident apostrophe))) (\<lambda>_.
          io_bind (logger_error (LogError err)) (\<lambda>_.
          channel_send (Text (search_failed ident backtick))))) w))
       = queries w @ [SelectByGuildAndId g ident]"
  using g search_failed_not_usage [of ident backtick]
  by (auto simp add: detail_mode_def io_defs usage_error_def
      split: sum.splits list.splits prod.splits)



lemma nat_digits_small: "n < 10 \<Longrightarrow> nat_digits n = [''0123456789'' ! n]"
  by (subst nat_digits.simps) simp

lemma nat_digits_large:
  "10 \<le> n \<Longrightarrow> nat_digits n = nat_digits (n div 10) @ [''0123456789'' ! (n mod 10)]"
  by (subst nat_digits.simps) simp

lemma js_trim_core:
  assumes "list_all js_whitespace pre" "list_all js_whitespace post"
    "\<not> js_whitespace a" "\<not> js_whitespace z"
  shows "js_trim (pre @ a # mid @ z # post) = a # mid @ [z]"
proof -
  have 1: "dropWhile js_whitespace (pre @ a # mid @ z # post) = a # mid @ z # post"
    using assms(1,3) by (simp add: dropWhile_append3 list_all_iff)
  have 2: "rev (a # mid @ z # post) = rev post @ z # rev mid @ [a]" by simp
  have 3: "dropWhile js_whitespace (rev post @ z # rev mid @ [a]) = z # rev mid @ [a]"
    using assms(2,4) by (simp add: dropWhile_append3 list_all_iff)
  show ?thesis by (simp only: js_trim_def 1 2 3) simp
qed

lemma format_block_text:
  "format_block e auditLog usr commandID =
     ''__**Audit Log #'' @ number_to_string (Num (row_id auditLog)) @ '':**__ '' @
        backtick @ commandID @ backtick @
      newline @ replicate 10 (CHR '' '') @
        ''**Time:** '' @ getDateTime e (timestamp auditLog) True @
      newline @ replicate 10 (CHR '' '') @
        ''**User:** '' @ tag usr @
      newline @ replicate 10 (CHR '' '') @
        ''('' @ user_id auditLog @ '')''"
proof -
  let ?mid = "''_**Audit Log #'' @ number_to_string (Num (row_id auditLog)) @ '':**__ '' @
        backtick @ commandID @ backtick @
      newline @ replicate 10 (CHR '' '') @
        ''**Time:** '' @ getDateTime e (timestamp auditLog) True @
      newline @ replicate 10 (CHR '' '') @
        ''**User:** '' @ tag usr @
      newline @ replicate 10 (CHR '' '') @
        ''('' @ user_id auditLog"
  have pre: "list_all js_whitespace (newline @ replicate 10 (CHR '' ''))"
    and post: "list_all js_whitespace (newline @ replicate 8 (CHR '' ''))"
    by (simp_all add: newline_def js_whitespace_def list_all_iff)
  have a: "\<not> js_whitespace (CHR ''_'')" and z: "\<not> js_whitespace (CHR '')'')"
    by (simp_all add: js_whitespace_def)
  have "format_block e auditLog usr commandID =
     js_trim ((newline @ replicate 10 (CHR '' '')) @ CHR ''_'' # ?mid @ CHR '')'' #
       (newline @ replicate 8 (CHR '' '')))"
    by (simp add: format_block_def)
  also have "\<dots> = CHR ''_'' # ?mid @ [CHR '')'']"
    by (rule js_trim_core [OF pre post a z])
  finally show ?thesis by simp
qed

lemma command_label_unregistered:
  "find_command cmds stored = None \<Longrightarrow>
   command_label (find_command cmds stored) stored = Inl (type_error ''id'')"
  by (simp add: command_label_def)

lemma format_row_ok:
  "users_fetch cl (user_id r) = Inr u \<Longrightarrow>
   find_command (commands cl) (command_id r) = Some c \<Longrightarrow>
   format_row e cl r w = (Inr (format_block e r u (cmd_id c)), w)"
  by (simp add: format_row_def io_defs command_label_def)

lemma format_rows_ok:
  "\<forall>r \<in> set rs. users_fetch cl (user_id r) = Inr (usr r) \<and>
                  find_command (commands cl) (command_id r) = Some (cmd r) \<Longrightarrow>
   format_rows e cl rs formattedArr w
     = (Inr (formattedArr @ map (\<lambda>r. format_block e r (usr r) (cmd_id (cmd r))) rs), w)"
proof (induction rs arbitrary: formattedArr)
  case Nil
  show ?case by (simp add: io_return_def)
next
  case (Cons r rs)
  have r: "format_row e cl r w = (Inr (format_block e r (usr r) (cmd_id (cmd r))), w)"
    using Cons.prems by (simp add: format_row_ok)
  have rest: "\<forall>r \<in> set rs. users_fetch cl (user_id r) = Inr (usr r) \<and>
                  find_command (commands cl) (command_id r) = Some (cmd r)"
    using Cons.prems by simp
  show ?case
    using Cons.IH [OF rest, of "formattedArr @ [format_block e r (usr r) (cmd_id (cmd r))]"]
    by (simp add: io_bind_def r)
qed

lemma sent_pages_embeds:
  "sent_pages (map (\<lambda>page. Embed (emb\<lparr>emb_description := Some page\<rparr>)) pages) = pages"
  by (induction pages) simp_all

lemma list_mode_ok:
  assumes g: "guild msg = Some g"
    and db: "pool e (SelectByGuild g) = Inr dbResult"
    and cnt: "1 \<le> rowCount dbResult"
    and ok: "\<forall>r \<in> set (rows dbResult).
               users_fetch cl (user_id r) = Inr (usr r) \<and>
               find_command (commands cl) (command_id r) = Some (cmd r)"
  shows "list_mode e cl msg emb w =
     (Inr (),
      w\<lparr>queries := queries w @ [SelectByGuild g],
        sent := sent w @
          map (\<lambda>page. Embed (emb\<lparr>emb_description := Some page\<rparr>))
            (paginate (map (\<lambda>r. format_block e r (usr r) (cmd_id (cmd r))) (rows dbResult)))\<rparr>)"
proof -
  let ?w = "w\<lparr>queries := queries w @ [SelectByGuild g]\<rparr>"
  have q: "withConnection (pool e) (\<lambda>connection.
                io_bind (message_guild_id msg) (\<lambda>g.
                connection_query connection (SelectByGuild g))) w = (Inr dbResult, ?w)"
    using g db by (simp add: io_defs)
  have f: "format_rows e cl (rows dbResult) [] ?w
     = (Inr (map (\<lambda>r. format_block e r (usr r) (cmd_id (cmd r))) (rows dbResult)), ?w)"
    using format_rows_ok [OF ok, of e "[]" ?w] by simp
  show ?thesis
    using cnt by (simp add: list_mode_def io_bind_def q f send_pages_sent)
qed

lemma unordered_rows_ok:
  "\<forall>r \<in> set (rows \<lparr>rowCount = 2, rows = [row_of 2 ''auditlog'', row_of 1 ''auditlog'']\<rparr>).
     users_fetch client0 (user_id r) = Inr user0 \<and>
     find_command (commands client0) (command_id r)
       = Some \<lparr>cmd_id = ''auditlog'', cmd_name = ''Audit Log''\<rparr>"
  by (simp add: client0_def row_of_def find_command_def user0_def)

lemma block_head:
  "take 16 (format_block e (row_of 2 ''auditlog'') u c) = ''__**Audit Log #2''"
  "take 16 (format_block e (row_of 1 ''auditlog'') u c) = ''__**Audit Log #1''"
  "16 \<le> length (format_block e (row_of i ''auditlog'') u c)"
  by (simp_all add: format_block_text number_to_string_def row_of_def nat_digits_small)

lemma unordered_pages:
  "paginate [format_block (env_with storage_unordered) (row_of 2 ''auditlog'') user0 ''auditlog'',
             format_block (env_with storage_unordered) (row_of 1 ''auditlog'') user0 ''auditlog'']
     = [[format_block (env_with storage_unordered) (row_of 2 ''auditlog'') user0 ''auditlog''
           @ newline,
         format_block (env_with storage_unordered) (row_of 1 ''auditlog'') user0 ''auditlog''
           @ newline]]"
proof -
  have len: "length (format_block (env_with storage_unordered) (row_of i ''auditlog'') user0
                       ''auditlog'') \<le> 200" if "i = 1 \<or> i = 2" for i
    using that
    by (auto simp add: format_block_text number_to_string_def row_of_def env_with_def
        newline_def backtick_def user0_def nat_digits_small)
  show ?thesis
    using len [of 1] len [of 2]
    by (simp add: paginate_def paginate_loop_single capacity_def del: paginate_loop.simps(2))
qed

lemma unordered_inputs:
  "guild (message_of ''auditlog'') = Some ''81384788765712384''"
  "pool (env_with storage_unordered) (SelectByGuild ''81384788765712384'')
     = Inr \<lparr>rowCount = 2, rows = [row_of 2 ''auditlog'', row_of 1 ''auditlog'']\<rparr>"
  "length (split_space (content (message_of ''auditlog''))) < 2"
  "1 \<le> rowCount \<lparr>rowCount = 2, rows = [row_of 2 ''auditlog'', row_of 1 ''auditlog'']\<rparr>"
  by (simp_all add: message_of_def env_with_def storage_unordered_def)

section \<open>Claims\<close>

text \<open>
  C2. Reading the blocks of every page in order, page after page, with the appended
  separator ignored, gives back the input sequence: nothing is lost, duplicated or
  reordered.
\<close>

theorem C2_pagination_preserves_blocks:
  "concat (map page_blocks (paginate formattedArr)) = formattedArr"
  using paginate_loop_blocks [of "[[]]" formattedArr 0]
  by (simp add: paginate_def page_blocks_def)

text \<open>
  C3, as the claim states it, fails. The handler keeps no record of a pending timer: a
  second ENOTFOUND fault, delivered while the timer of the first is pending and before any
  login, arms a second timer, and when both have fired \<^verbatim>\<open>login\<close> has been called twice.
\<close>

theorem C3_counterexample:
  "timers (snd (error_execute 30000 enotfound world0)) = [30000] \<and>
   logins (snd (error_execute 30000 enotfound world0)) = 0 \<and>
   timers (snd (error_execute 30000 enotfound (snd (error_execute 30000 enotfound world0))))
     = [30000, 30000] \<and>
   logins (timer_fires (timer_fires
     (snd (error_execute 30000 enotfound (snd (error_execute 30000 enotfound world0))))))
     = 2"
  by (simp add: error_execute_ENOTFOUND enotfound_def world0_def timer_fires_def)

text \<open>
  C3, amended. Every ENOTFOUND fault delivered to the handler arms one more reconnect
  timer, whether or not one is pending: after a sequence of faults with no timer firing in
  between, the pending timers are those from before and one for each ENOTFOUND fault of
  the sequence; the handler itself makes no login attempt.
\<close>

theorem C3_every_fault_arms_a_timer:
  "timers (deliver T errs w)
     = timers w @ replicate (length (filter (\<lambda>err. err_name err = ''ENOTFOUND'') errs)) T \<and>
   logins (deliver T errs w) = logins w"
proof (induction errs arbitrary: w)
  case Nil
  show ?case by simp
next
  case (Cons err errs)
  show ?case
  proof (cases "err_name err = ''ENOTFOUND''")
    case True
    then show ?thesis
      using Cons.IH [of "snd (error_execute T err w)"]
      by (simp add: error_execute_ENOTFOUND replicate_app_Cons_same)
  next
    case False
    then show ?thesis
      using Cons.IH [of "snd (error_execute T err w)"]
      by (simp add: error_execute_other)
  qed
qed

text \<open>
  C6. A fault whose name is not ENOTFOUND is logged as an error; the handler returns
  normally, arms no timer and makes no login attempt.
\<close>

theorem C6_other_faults_only_logged:
  "err_name err \<noteq> ''ENOTFOUND'' \<Longrightarrow>
   fst (error_execute T err w) = Inr () \<and>
   logged (snd (error_execute T err w)) = logged w @ [LogError err] \<and>
   timers (snd (error_execute T err w)) = timers w \<and>
   logins (snd (error_execute T err w)) = logins w"
  by (simp add: error_execute_other)

theorem C6_witness:
  "err_name econnreset \<noteq> ''ENOTFOUND'' \<and>
   logged (snd (error_execute 30000 econnreset world0)) = [LogError econnreset] \<and>
   timers (snd (error_execute 30000 econnreset world0)) = [] \<and>
   logins (snd (error_execute 30000 econnreset world0)) = 0"
proof -
  have h: "err_name econnreset \<noteq> ''ENOTFOUND''" by (simp add: econnreset_def)
  show ?thesis
    using h C6_other_faults_only_logged [OF h, of 30000 world0] by (simp add: world0_def)
qed

text \<open>
  C5. insertAuditLog never raises to its caller, whatever the connection answers and
  whether or not the message has a guild. When the storage accepts the statement, exactly
  one statement was handed over, the insert of one row with the guild id, the author id,
  the command id and the text of the message, and nothing is logged. When the storage
  answers with a fault, the fault and a notice are logged, no row is written, and the
  function returns normally.
\<close>

theorem C5_insertAuditLog_never_raises:
  "fst (insertAuditLog connection msg commandID w) = Inr () \<and>
   (\<forall>g r. guild msg = Some g \<and>
           connection (InsertAuditLog g (author msg) commandID (content msg)) = Inr r \<longrightarrow>
      queries (snd (insertAuditLog connection msg commandID w))
        = queries w @ [InsertAuditLog g (author msg) commandID (content msg)] \<and>
      rows_written connection (queries (snd (insertAuditLog connection msg commandID w)))
        = rows_written connection (queries w) @ [(g, author msg, commandID, content msg)] \<and>
      logged (snd (insertAuditLog connection msg commandID w)) = logged w) \<and>
   (\<forall>g err. guild msg = Some g \<and>
           connection (InsertAuditLog g (author msg) commandID (content msg)) = Inl err \<longrightarrow>
      logged (snd (insertAuditLog connection msg commandID w))
        = logged w @ [LogError err, insert_failed] \<and>
      rows_written connection (queries (snd (insertAuditLog connection msg commandID w)))
        = rows_written connection (queries w))"
proof (intro conjI allI impI)
  show "fst (insertAuditLog connection msg commandID w) = Inr ()"
  proof (cases "guild msg")
    case None
    then show ?thesis by (simp add: insertAuditLog_no_guild)
  next
    case (Some g)
    then show ?thesis
      by (cases "connection (InsertAuditLog g (author msg) commandID (content msg))")
        (simp_all add: insertAuditLog_fault insertAuditLog_success)
  qed
next
  fix g r
  assume a: "guild msg = Some g \<and>
    connection (InsertAuditLog g (author msg) commandID (content msg)) = Inr r"
  then have eq: "insertAuditLog connection msg commandID w =
     (Inr (), w\<lparr>queries := queries w @ [InsertAuditLog g (author msg) commandID (content msg)]\<rparr>)"
    by (simp add: insertAuditLog_success)
  show "queries (snd (insertAuditLog connection msg commandID w))
        = queries w @ [InsertAuditLog g (author msg) commandID (content msg)]"
    by (simp add: eq)
  show "rows_written connection (queries (snd (insertAuditLog connection msg commandID w)))
        = rows_written connection (queries w) @ [(g, author msg, commandID, content msg)]"
    using a by (simp add: eq rows_written_append)
  show "logged (snd (insertAuditLog connection msg commandID w)) = logged w"
    by (simp add: eq)
next
  fix g err
  assume a: "guild msg = Some g \<and>
    connection (InsertAuditLog g (author msg) commandID (content msg)) = Inl err"
  then have eq: "insertAuditLog connection msg commandID w =
     (Inr (), w\<lparr>queries := queries w @ [InsertAuditLog g (author msg) commandID (content msg)],
               logged := logged w @ [LogError err, insert_failed]\<rparr>)"
    by (simp add: insertAuditLog_fault)
  show "logged (snd (insertAuditLog connection msg commandID w))
        = logged w @ [LogError err, insert_failed]"
    by (simp add: eq)
  show "rows_written connection (queries (snd (insertAuditLog connection msg commandID w)))
        = rows_written connection (queries w)"
    using a by (simp add: eq rows_written_append)
qed

theorem C5_witness:
  "fst (insertAuditLog storage_ok message0 ''ping'' world0) = Inr () \<and>
   queries (snd (insertAuditLog storage_ok message0 ''ping'' world0))
     = [InsertAuditLog ''81384788765712384'' ''80351110224678912'' ''ping'' ''ping''] \<and>
   rows_written storage_ok (queries (snd (insertAuditLog storage_ok message0 ''ping'' world0)))
     = [(''81384788765712384'', ''80351110224678912'', ''ping'', ''ping'')] \<and>
   logged (snd (insertAuditLog storage_ok message0 ''ping'' world0)) = [] \<and>
   fst (insertAuditLog storage_down message0 ''ping'' world0) = Inr () \<and>
   logged (snd (insertAuditLog storage_down message0 ''ping'' world0))
     = [LogError \<lparr>err_name = ''Error'', err_message = ''Connection terminated unexpectedly''\<rparr>,
        insert_failed] \<and>
   rows_written storage_down (queries (snd (insertAuditLog storage_down message0 ''ping'' world0)))
     = []"
proof -
  have g: "guild message0 = Some ''81384788765712384''"
    and a: "author message0 = ''80351110224678912''"
    and c: "content message0 = ''ping''"
    by (simp_all add: message0_def)
  have ok: "storage_ok (InsertAuditLog ''81384788765712384'' ''80351110224678912'' ''ping''
              ''ping'') = Inr \<lparr>rowCount = 1, rows = []\<rparr>"
    by (simp add: storage_ok_def)
  have down: "storage_down (InsertAuditLog ''81384788765712384'' ''80351110224678912'' ''ping''
              ''ping'')
              = Inl \<lparr>err_name = ''Error'', err_message = ''Connection terminated unexpectedly''\<rparr>"
    by (simp add: storage_down_def)
  have w0: "queries world0 = []" "logged world0 = []" by (simp_all add: world0_def)
  have rw: "rows_written storage_ok [] = []" "rows_written storage_down [] = []"
    by (simp_all add: rows_written_def)
  show ?thesis
    using C5_insertAuditLog_never_raises [of storage_ok message0 "''ping''" world0]
          C5_insertAuditLog_never_raises [of storage_down message0 "''ping''" world0]
    by (simp add: g a c ok down w0 rw rows_written_def)
qed

text \<open>
  C1 evaluated on sixteen blocks of 128 characters. The counter \<^verbatim>\<open>buffer\<close> adds the
  length of a block without the separator that is appended to it: it reaches 2048, which
  is not above the capacity, so all sixteen blocks are placed on one page, and the
  rendered content of that page, sixteen blocks each with its separator, has 2064
  characters.
\<close>

theorem C1_separator_not_counted:
  "paginate [block128, block128, block128, block128, block128, block128, block128, block128,
             block128, block128, block128, block128, block128, block128, block128, block128]
     = [[block128 @ newline, block128 @ newline, block128 @ newline, block128 @ newline,
         block128 @ newline, block128 @ newline, block128 @ newline, block128 @ newline,
         block128 @ newline, block128 @ newline, block128 @ newline, block128 @ newline,
         block128 @ newline, block128 @ newline, block128 @ newline, block128 @ newline]] \<and>
   length (rendered (hd (paginate
            [block128, block128, block128, block128, block128, block128, block128, block128,
             block128, block128, block128, block128, block128, block128, block128, block128])))
     = 2064"
proof -
  have len: "length block128 = 128" by (simp add: block128_def)
  have nl: "length newline = 1" by (simp add: newline_def)
  have p: "paginate [block128, block128, block128, block128, block128, block128, block128, block128,
             block128, block128, block128, block128, block128, block128, block128, block128]
     = [[block128 @ newline, block128 @ newline, block128 @ newline, block128 @ newline,
         block128 @ newline, block128 @ newline, block128 @ newline, block128 @ newline,
         block128 @ newline, block128 @ newline, block128 @ newline, block128 @ newline,
         block128 @ newline, block128 @ newline, block128 @ newline, block128 @ newline]]"
    by (simp add: paginate_def paginate_loop_single len capacity_def del: paginate_loop.simps(2))
  show ?thesis
    by (simp add: p rendered_def len nl)
qed

text \<open>
  C9. For a non-empty input whose first block is longer than 2048 characters, the first
  page holds no block and the second page begins with that block. A page of a non-empty
  input is empty only in that case, and only the first one. One message is sent for every
  page, the empty one included.
\<close>

theorem C9_leading_empty_page:
  "formattedArr \<noteq> [] \<Longrightarrow>
   (capacity < length (hd formattedArr) \<longrightarrow>
      (\<exists>blocks pages.
         paginate formattedArr = [] # ((hd formattedArr @ newline) # blocks) # pages)) \<and>
   (\<forall>i < length (paginate formattedArr).
      paginate formattedArr ! i = [] \<longleftrightarrow> i = 0 \<and> capacity < length (hd formattedArr)) \<and>
   sent (snd (send_pages emb (paginate formattedArr) w))
     = sent w @ map (\<lambda>page. Embed (emb\<lparr>emb_description := Some page\<rparr>)) (paginate formattedArr)"
proof -
  assume "formattedArr \<noteq> []"
  then obtain x xs where xs: "formattedArr = x # xs" by (cases formattedArr) auto
  let ?tail = "fst (paginate_loop xs ([[x @ newline]], length x))"
  obtain blocks pages where first: "?tail = ([x @ newline] @ blocks) # pages"
    using paginate_loop_first_page [of xs "[x @ newline]" "length x"] by blast
  have none: "[] \<notin> set ?tail"
    using paginate_loop_no_empty_page [of "[x @ newline]" xs "length x"] by simp
  have a: "capacity < length (hd formattedArr) \<longrightarrow>
      (\<exists>blocks pages.
         paginate formattedArr = [] # ((hd formattedArr @ newline) # blocks) # pages)"
    using first by (simp add: xs paginate_Cons)
  have b: "\<forall>i < length (paginate formattedArr).
      paginate formattedArr ! i = [] \<longleftrightarrow> i = 0 \<and> capacity < length (hd formattedArr)"
  proof (intro allI impI)
    fix i assume i: "i < length (paginate formattedArr)"
    show "paginate formattedArr ! i = [] \<longleftrightarrow> i = 0 \<and> capacity < length (hd formattedArr)"
    proof (cases "capacity < length x")
      case True
      then have p: "paginate (x # xs) = [] # ?tail" by (simp add: paginate_Cons)
      show ?thesis
      proof (cases i)
        case 0
        then show ?thesis using True by (simp add: xs p)
      next
        case (Suc j)
        then have "j < length ?tail" using i p by (simp add: xs)
        then have "?tail ! j \<in> set ?tail" by simp
        then have "?tail ! j \<noteq> []" using none by metis
        then show ?thesis using Suc by (simp add: xs p)
      qed
    next
      case False
      then have p: "paginate (x # xs) = ?tail" by (simp add: paginate_Cons)
      have "?tail ! i \<in> set ?tail" using i p by (simp add: xs)
      then have "?tail ! i \<noteq> []" using none by metis
      then show ?thesis using False by (simp add: xs p)
    qed
  qed
  show ?thesis using a b by (simp add: send_pages_sent)
qed

theorem C9_witness:
  "paginate [replicate 2049 (CHR ''a'')] = [[], [replicate 2049 (CHR ''a'') @ newline]] \<and>
   sent (snd (send_pages new_MessageEmbed (paginate [replicate 2049 (CHR ''a'')]) world0))
     = [Embed (new_MessageEmbed\<lparr>emb_description := Some []\<rparr>),
        Embed (new_MessageEmbed\<lparr>emb_description := Some [replicate 2049 (CHR ''a'') @ newline]\<rparr>)]"
proof -
  have ne: "[replicate 2049 (CHR ''a'')] \<noteq> []" by simp
  have p: "paginate [replicate 2049 (CHR ''a'')] = [[], [replicate 2049 (CHR ''a'') @ newline]]"
    by (simp add: paginate_def capacity_def push_last_def)
  show ?thesis
    using C9_leading_empty_page [OF ne, of new_MessageEmbed world0]
    by (simp add: p world0_def)
qed




text \<open>
  C10. Detail mode validates the token with \<^verbatim>\<open>Number\<close> and queries with \<^verbatim>\<open>parseInt\<close>:
  for a message of a guild whose token has a \<^verbatim>\<open>Number\<close> that is not NaN, the one message
  sent is not the usage error and the one statement handed to the storage is the select by
  guild and id with the id \<^verbatim>\<open>parseInt\<close> of the token. The token 12.5 is accepted, and its
  id is 12.
\<close>

theorem C10_Number_validates_parseInt_queries:
  "2 \<le> length (split_space (content msg)) \<Longrightarrow>
   \<not> isNaN_Number (split_space (content msg) ! 1) \<Longrightarrow>
   guild msg = Some g \<Longrightarrow>
   (\<exists>out. out \<noteq> Text usage_error \<and>
      sent (snd (auditlog_execute e cl msg w)) = sent w @ [out]) \<and>
   queries (snd (auditlog_execute e cl msg w))
     = queries w @ [SelectByGuildAndId g (parseInt (split_space (content msg) ! 1))] \<and>
   \<not> isNaN_Number ''12.5'' \<and> parseInt ''12.5'' = Num 12"
proof -
  assume len: "2 \<le> length (split_space (content msg))"
    and num: "\<not> isNaN_Number (split_space (content msg) ! 1)"
    and g: "guild msg = Some g"
  let ?ident = "parseInt (split_space (content msg) ! 1)"
  let ?emb = "new_MessageEmbed\<lparr>emb_color := Some (skyblue e)\<rparr>"
  let ?run = "try_catch (detail_mode e cl msg ?emb ?ident)
       (\<lambda>err.
          io_bind (logger_error (LogText (search_failed ?ident apostrophe))) (\<lambda>_.
          io_bind (logger_error (LogError err)) (\<lambda>_.
          channel_send (Text (search_failed ?ident backtick)))))"
  have run: "auditlog_execute e cl msg w = ?run w"
    using len num by (simp add: auditlog_execute_def Let_def)
  obtain out where out: "out \<noteq> Text usage_error" "sent (snd (?run w)) = sent w @ [out]"
    and q: "queries (snd (?run w)) = queries w @ [SelectByGuildAndId g ?ident]"
    using detail_mode_caught [OF g, of e cl ?emb ?ident w] by blast
  have ex: "\<not> isNaN_Number ''12.5''" "parseInt ''12.5'' = Num 12"
    by (simp_all add: number_defs)
  show ?thesis
    using out q ex by (auto simp add: run)
qed

theorem C10_witness:
  "queries (snd (auditlog_execute (env_with storage_ok) client0 (message_of ''auditlog 12.5'')
                   world0))
     = [SelectByGuildAndId ''81384788765712384'' (Num 12)] \<and>
   (\<exists>out. out \<noteq> Text usage_error \<and>
      sent (snd (auditlog_execute (env_with storage_ok) client0 (message_of ''auditlog 12.5'')
                   world0)) = [out])"
proof -
  have args: "split_space (content (message_of ''auditlog 12.5'')) = [''auditlog'', ''12.5'']"
    by (simp add: message_of_def)
  have len: "2 \<le> length (split_space (content (message_of ''auditlog 12.5'')))"
    by (simp add: args)
  have num: "\<not> isNaN_Number (split_space (content (message_of ''auditlog 12.5'')) ! 1)"
    by (simp add: args number_defs)
  have g: "guild (message_of ''auditlog 12.5'') = Some ''81384788765712384''"
    by (simp add: message_of_def)
  have p: "parseInt ''12.5'' = Num 12" by (simp add: number_defs)
  show ?thesis
    using C10_Number_validates_parseInt_queries
            [OF len num g, of "env_with storage_ok" client0 world0]
    by (simp add: args p world0_def)
qed

text \<open>
  C4 evaluated on a stored entry whose command id, \<^verbatim>\<open>ping\<close>, is the id of no registered
  command. The lookup finds nothing and reading \<^verbatim>\<open>.id\<close> of the result raises, so the
  fallback to the stored id is never reached: list mode sends the notice that the audit
  log could not be displayed, detail mode the notice that the search failed, and both log
  the TypeError.
\<close>

theorem C4_unregistered_command_faults:
  "find_command (commands client0) (command_id (row_of 7 ''ping'')) = None \<and>
   auditlog_execute (env_with storage_ping) client0 (message_of ''auditlog'') world0
     = (Inr (),
        world0\<lparr>sent := [Text ''Could not display audit log. Details have been logged.''],
               logged := [LogError (type_error ''id'')],
               queries := [SelectByGuild ''81384788765712384'']\<rparr>) \<and>
   auditlog_execute (env_with storage_ping) client0 (message_of ''auditlog 7'') world0
     = (Inr (),
        world0\<lparr>sent := [Text (search_failed (Num 7) backtick)],
               logged := [LogText (search_failed (Num 7) apostrophe),
                          LogError (type_error ''id'')],
               queries := [SelectByGuildAndId ''81384788765712384'' (Num 7)]\<rparr>)"
proof -
  have none: "find_command (commands client0) (command_id (row_of 7 ''ping'')) = None"
    by (simp add: find_command_def client0_def row_of_def)
  have row: "format_row e client0 (row_of 7 ''ping'') w = (Inl (type_error ''id''), w)"
    for e w
    using none by (simp add: format_row_def io_defs command_label_def client0_def)
  have list_mode: "auditlog_execute (env_with storage_ping) client0 (message_of ''auditlog'') world0
     = (Inr (),
        world0\<lparr>sent := [Text ''Could not display audit log. Details have been logged.''],
               logged := [LogError (type_error ''id'')],
               queries := [SelectByGuild ''81384788765712384'']\<rparr>)"
    by (simp add: auditlog_execute_def list_mode_def io_defs row message_of_def env_with_def
        storage_ping_def world0_def)
  have seven: "isNaN_Number ''7'' = False" "parseInt ''7'' = Num 7"
    by (simp_all add: number_defs)
  have detail: "auditlog_execute (env_with storage_ping) client0 (message_of ''auditlog 7'') world0
     = (Inr (),
        world0\<lparr>sent := [Text (search_failed (Num 7) backtick)],
               logged := [LogText (search_failed (Num 7) apostrophe),
                          LogError (type_error ''id'')],
               queries := [SelectByGuildAndId ''81384788765712384'' (Num 7)]\<rparr>)"
    using none
    by (simp add: auditlog_execute_def Let_def detail_mode_def io_defs message_of_def
        env_with_def storage_ping_def world0_def seven command_label_def client0_def)
  show ?thesis using none list_mode detail by simp
qed

text \<open>
  C8, as the claim states it, fails. The select of list mode has no ORDER BY clause and the
  rows are not sorted afterwards: when the storage returns the entry with id 2 before the
  entry with id 1, the block of entry 2 is rendered before the block of entry 1.
\<close>

theorem C8_counterexample:
  "map row_id (rows (projr (storage_unordered (SelectByGuild ''81384788765712384'')))) = [2, 1] \<and>
   map (map (take 16))
     (sent_pages (sent (snd (auditlog_execute (env_with storage_unordered) client0
                               (message_of ''auditlog'') world0))))
     = [[''__**Audit Log #2'', ''__**Audit Log #1'']]"
proof -
  have run: "auditlog_execute (env_with storage_unordered) client0 (message_of ''auditlog'') world0
     = try_catch (list_mode (env_with storage_unordered) client0 (message_of ''auditlog'')
                    (new_MessageEmbed\<lparr>emb_color := Some (skyblue (env_with storage_unordered))\<rparr>))
         (\<lambda>err.
                 io_bind (logger_error (LogError err)) (\<lambda>_.
                 channel_send
                   (Text ''Could not display audit log. Details have been logged.''))) world0"
    using unordered_inputs(3) by (simp add: auditlog_execute_def Let_def)
  have s0: "sent world0 = []" by (simp add: world0_def)
  have ids: "map row_id (rows (projr (storage_unordered (SelectByGuild ''81384788765712384''))))
               = [2, 1]"
    by (simp add: storage_unordered_def row_of_def)
  have "map (map (take 16))
     (sent_pages (sent (snd (auditlog_execute (env_with storage_unordered) client0
                               (message_of ''auditlog'') world0))))
     = [[''__**Audit Log #2'', ''__**Audit Log #1'']]"
    by (simp add: run try_catch_def
        list_mode_ok [OF unordered_inputs(1) unordered_inputs(2) unordered_inputs(4)
                         unordered_rows_ok]
        unordered_pages sent_pages_embeds s0 block_head)
  with ids show ?thesis by simp
qed

text \<open>
  C8, amended. In list mode, for a message of a guild, when the storage returns at least
  one row and every row can be formatted (its user is fetched and its command is
  registered), the messages sent are the pages of the blocks of the rows in the order in
  which the storage returned them: the blocks read off the pages are the blocks of the
  rows in that order.
\<close>

theorem C8_blocks_in_returned_order:
  assumes args: "length (split_space (content msg)) < 2"
    and g: "guild msg = Some g"
    and db: "pool e (SelectByGuild g) = Inr dbResult"
    and cnt: "1 \<le> rowCount dbResult"
    and ok: "\<forall>r \<in> set (rows dbResult).
               users_fetch cl (user_id r) = Inr (usr r) \<and>
               find_command (commands cl) (command_id r) = Some (cmd r)"
  shows "sent (snd (auditlog_execute e cl msg w))
           = sent w @
             map (\<lambda>page. Embed (new_MessageEmbed\<lparr>emb_color := Some (skyblue e),
                                                  emb_description := Some page\<rparr>))
               (paginate (map (\<lambda>r. format_block e r (usr r) (cmd_id (cmd r))) (rows dbResult))) \<and>
         concat (map page_blocks
                  (paginate (map (\<lambda>r. format_block e r (usr r) (cmd_id (cmd r))) (rows dbResult))))
           = map (\<lambda>r. format_block e r (usr r) (cmd_id (cmd r))) (rows dbResult)"
proof -
  let ?blocks = "map (\<lambda>r. format_block e r (usr r) (cmd_id (cmd r))) (rows dbResult)"
  let ?emb = "new_MessageEmbed\<lparr>emb_color := Some (skyblue e)\<rparr>"
  have run: "auditlog_execute e cl msg w
     = try_catch (list_mode e cl msg ?emb)
         (\<lambda>err.
                 io_bind (logger_error (LogError err)) (\<lambda>_.
                 channel_send
                   (Text ''Could not display audit log. Details have been logged.''))) w"
    using args by (simp add: auditlog_execute_def Let_def)
  have a: "sent (snd (auditlog_execute e cl msg w))
           = sent w @
             map (\<lambda>page. Embed (new_MessageEmbed\<lparr>emb_color := Some (skyblue e),
                                                  emb_description := Some page\<rparr>))
               (paginate ?blocks)"
    by (simp add: run try_catch_def list_mode_ok [OF g db cnt ok])
  have b: "concat (map page_blocks (paginate ?blocks)) = ?blocks"
    using paginate_loop_blocks [of "[[]]" ?blocks 0]
    by (simp add: paginate_def page_blocks_def)
  show ?thesis using a b by simp
qed

theorem C8_witness:
  "sent_pages (sent (snd (auditlog_execute (env_with storage_unordered) client0
                            (message_of ''auditlog'') world0)))
     = [[format_block (env_with storage_unordered) (row_of 2 ''auditlog'') user0 ''auditlog''
           @ newline,
         format_block (env_with storage_unordered) (row_of 1 ''auditlog'') user0 ''auditlog''
           @ newline]]"
proof -
  have s0: "sent world0 = []" by (simp add: world0_def)
  show ?thesis
    using C8_blocks_in_returned_order
            [OF unordered_inputs(3) unordered_inputs(1) unordered_inputs(2) unordered_inputs(4)
                unordered_rows_ok, of world0]
    by (simp add: unordered_pages sent_pages_embeds s0)
qed

end
